theory Spec2Isabelle
  imports Main
begin

section \<open>Shared vocabulary\<close>

text \<open>
  The program is asynchronous Python. An awaited call either returns a value, raises an
  ordinary exception (a subclass of \<open>Exception\<close>), or is cancelled: the awaiting task
  receives \<open>asyncio.CancelledError\<close>, which since Python 3.8 derives from
  \<open>BaseException\<close> and therefore passes through every \<open>except Exception\<close> clause.
\<close>

datatype 'a outcome = Returns 'a | Raises | Cancelled

text \<open>
  A Python text is modelled by the list of the bytes of its UTF-8 encoding, so a character
  outside ASCII takes two or three elements of the list.

  Python values as far as scripts use them. A dictionary is an association list with
  string keys (the first binding of a key is the one in force).
\<close>

datatype pyval =
    PyNone
  | PyBool bool
  | PyInt int
  | PyStr string
  | PyList "pyval list"
  | PyDict "(string \<times> pyval) list"

type_synonym pydict = "(string \<times> pyval) list"

fun truthy :: "pyval \<Rightarrow> bool" where
  "truthy PyNone = False"
| "truthy (PyBool b) = b"
| "truthy (PyInt i) = (i \<noteq> 0)"
| "truthy (PyStr s) = (s \<noteq> [])"
| "truthy (PyList xs) = (xs \<noteq> [])"
| "truthy (PyDict kvs) = (kvs \<noteq> [])"

fun is_list :: "pyval \<Rightarrow> bool" where
  "is_list (PyList xs) = True"
| "is_list v = False"

fun is_dict :: "pyval \<Rightarrow> bool" where
  "is_dict (PyDict kvs) = True"
| "is_dict v = False"

text \<open>
  User-facing texts of the source are Russian string literals. They are rendered here by
  constructors, one per literal or f-string, so that the theory stays in ASCII and no
  property depends on the wording.
\<close>

datatype status_text =
    StatusNotConnected     \<comment> \<open>initial status written by \<open>load_devices\<close>\<close>
  | StatusConnected        \<comment> \<open>after a successful connect or a status sweep\<close>
  | StatusConnectError     \<comment> \<open>after a failed connect\<close>
  | StatusDisconnected     \<comment> \<open>after disconnect, or missing from the bridge's list\<close>
  | StatusDisconnectError  \<comment> \<open>exception while disconnecting\<close>
  | StatusNotReady string  \<comment> \<open>listed by the bridge in a state other than \<open>device\<close>\<close>

datatype device_name =
    GivenName string       \<comment> \<open>third field of the roster line\<close>
  | DefaultName string     \<comment> \<open>f-string built from the device id\<close>

datatype action_tag =
    Label string           \<comment> \<open>text supplied by the caller\<close>
  | TagScreenshot          \<comment> \<open>set by \<open>take_screenshot\<close>\<close>
  | TagRestart string      \<comment> \<open>default of \<open>restart_app\<close>, built from the package name\<close>
  | TagTap int int         \<comment> \<open>default of \<open>input_tap\<close>, built from the coordinates\<close>
  | TagText                \<comment> \<open>default of \<open>input_text\<close>\<close>
  | TagStep pyval          \<comment> \<open>description of the script step being executed\<close>

text \<open>The error text of a command result (third component of the result triple).\<close>

datatype stderr_text =
    ErrOutput string       \<comment> \<open>what the bridge process wrote to stderr\<close>
  | ErrRetries nat         \<comment> \<open>message after the last failed attempt, with the attempt count\<close>
  | ErrNotInRoster         \<comment> \<open>the device is not in the list\<close>
  | ErrNotConnected        \<comment> \<open>the device is not connected\<close>
  | ErrException           \<comment> \<open>\<open>str(e)\<close> of a caught exception\<close>

type_synonym command_result = "bool \<times> string \<times> stderr_text"

section \<open>Text operations\<close>

text \<open>
  \<open>str.strip()\<close> removes the white space of Unicode from both ends of a text: the ASCII
  characters below, U+0085 and U+00A0 (two bytes each in UTF-8), and U+1680,
  U+2000 to U+200A, U+2028, U+2029, U+202F, U+205F and U+3000 (three bytes each).
\<close>

definition is_space :: "char \<Rightarrow> bool" where
  "is_space c = (c \<in> set [CHR '' '', CHR 0x09, CHR 0x0A, CHR 0x0B, CHR 0x0C, CHR 0x0D,
                           CHR 0x1C, CHR 0x1D, CHR 0x1E, CHR 0x1F])"

definition space2 :: "char \<Rightarrow> char \<Rightarrow> bool" where
  "space2 a b = (a = CHR 0xC2 \<and> (b = CHR 0x85 \<or> b = CHR 0xA0))"

definition space3 :: "char \<Rightarrow> char \<Rightarrow> char \<Rightarrow> bool" where
  "space3 a b c =
     ((a = CHR 0xE1 \<and> b = CHR 0x9A \<and> c = CHR 0x80)
      \<or> (a = CHR 0xE2 \<and> b = CHR 0x80
          \<and> c \<in> set [CHR 0x80, CHR 0x81, CHR 0x82, CHR 0x83, CHR 0x84, CHR 0x85, CHR 0x86,
                       CHR 0x87, CHR 0x88, CHR 0x89, CHR 0x8A, CHR 0xA8, CHR 0xA9, CHR 0xAF])
      \<or> (a = CHR 0xE2 \<and> b = CHR 0x81 \<and> c = CHR 0x9F)
      \<or> (a = CHR 0xE3 \<and> b = CHR 0x80 \<and> c = CHR 0x80))"

text \<open>
  Dropping white space from the front of a byte list, where \<open>p2\<close> and \<open>p3\<close> recognise
  the two-byte and the three-byte white space characters. The same function serves the
  end of a text, on the reversed list with the bytes of each character reversed.
\<close>

fun drop_spaces ::
  "(char \<Rightarrow> char \<Rightarrow> bool) \<Rightarrow> (char \<Rightarrow> char \<Rightarrow> char \<Rightarrow> bool) \<Rightarrow> string \<Rightarrow> string" where
  "drop_spaces p2 p3 (a # b # c # rest) =
     (if is_space a then drop_spaces p2 p3 (b # c # rest)
      else if p2 a b then drop_spaces p2 p3 (c # rest)
      else if p3 a b c then drop_spaces p2 p3 rest
      else a # b # c # rest)"
| "drop_spaces p2 p3 [a, b] =
     (if is_space a then drop_spaces p2 p3 [b]
      else if p2 a b then []
      else [a, b])"
| "drop_spaces p2 p3 [a] = (if is_space a then [] else [a])"
| "drop_spaces p2 p3 [] = []"

definition lstrip :: "string \<Rightarrow> string" where
  "lstrip s = drop_spaces space2 space3 s"

definition rstrip :: "string \<Rightarrow> string" where
  "rstrip s = rev (drop_spaces (\<lambda>b a. space2 a b) (\<lambda>c b a. space3 a b c) (rev s))"

definition strip :: "string \<Rightarrow> string" where
  "strip s = rstrip (lstrip s)"

text \<open>\<open>str.split(sep)\<close> for a one-character separator: always at least one field.\<close>

fun py_split :: "char \<Rightarrow> string \<Rightarrow> string list" where
  "py_split sep [] = [[]]"
| "py_split sep (c # cs) =
     (if c = sep then [] # py_split sep cs
      else (case py_split sep cs of
              [] \<Rightarrow> [[c]]
            | f # fs \<Rightarrow> (c # f) # fs))"

definition startswith :: "string \<Rightarrow> string \<Rightarrow> bool" where
  "startswith s p = (take (length p) s = p)"

text \<open>\<open>str.replace\<close> of one character by another.\<close>

definition replace_char :: "char \<Rightarrow> char \<Rightarrow> string \<Rightarrow> string" where
  "replace_char old new s = map (\<lambda>c. if c = old then new else c) s"

text \<open>The decimal text of a natural number, as an f-string renders it.\<close>

fun str_nat :: "nat \<Rightarrow> string" where
  "str_nat n =
     (if n < 10 then [''0123456789'' ! n]
      else str_nat (n div 10) @ [''0123456789'' ! (n mod 10)])"

declare str_nat.simps [simp del]

text \<open>
  \<open>os.path.join\<close> of two components on a POSIX host: an absolute second component
  replaces the first, and a separator is added unless the first is empty or ends in one.
\<close>

definition path_join :: "string \<Rightarrow> string \<Rightarrow> string" where
  "path_join a b =
     (if startswith b ''/'' then b
      else if a = [] \<or> last a = CHR ''/'' then a @ b
      else a @ ''/'' @ b)"

section \<open>Bridge client (modules/adb\_manager.py)\<close>

text \<open>
  What one spawned bridge process does: it exits with a return code, stdout and stderr, or
  it exceeds the timeout and is killed, or spawning it raises. A bridge answers a command
  (the argument list after \<open>-s device_id\<close>) at each attempt.
\<close>

datatype proc_result = Exited int string string | TimedOut | SpawnError

type_synonym bridge = "string list \<Rightarrow> nat \<Rightarrow> proc_result"

fun contains :: "string \<Rightarrow> string \<Rightarrow> bool" where
  "contains [] sub = (sub = [])"
| "contains (c # cs) sub = (take (length sub) (c # cs) = sub \<or> contains cs sub)"

definition device_not_found :: "string \<Rightarrow> bool" where
  "device_not_found stderr_text =
     (contains stderr_text ''device not found''
      \<or> (contains stderr_text (''device '' @ [CHR 0x27])
          \<and> contains stderr_text (CHR 0x27 # '' not found'')))"

text \<open>
  The retry loop of \<open>execute_command\<close>: \<open>remaining\<close> attempts are left and
  \<open>attempt\<close> is the loop index. It yields the result, if an attempt settles it, and the
  number of processes spawned so far.
\<close>

fun run_attempts :: "(nat \<Rightarrow> proc_result) \<Rightarrow> nat \<Rightarrow> nat \<Rightarrow> command_result option \<times> nat" where
  "run_attempts answer 0 attempt = (None, attempt)"
| "run_attempts answer (Suc remaining) attempt =
     (case answer attempt of
        Exited returncode out err \<Rightarrow>
          (if returncode = 0 then (Some (True, out, ErrOutput err), Suc attempt)
           else if device_not_found err then (Some (False, out, ErrOutput err), Suc attempt)
           else run_attempts answer remaining (Suc attempt))
      | TimedOut \<Rightarrow> run_attempts answer remaining (Suc attempt)
      | SpawnError \<Rightarrow> run_attempts answer remaining (Suc attempt))"

text \<open>
  \<open>execute_command\<close> returns the result triple; the model adds the log of the commands
  it spawned, one entry per attempt.
\<close>

definition adb_execute_command ::
  "bridge \<Rightarrow> nat \<Rightarrow> string list \<Rightarrow> command_result \<times> string list list" where
  "adb_execute_command br retries command =
     (case run_attempts (br command) retries 0 of
        (Some r, spawned) \<Rightarrow> (r, replicate spawned command)
      | (None, spawned) \<Rightarrow> ((False, [], ErrRetries retries), replicate spawned command))"

definition adb_shell_command ::
  "bridge \<Rightarrow> nat \<Rightarrow> string \<Rightarrow> command_result \<times> string list list" where
  "adb_shell_command br retries command = adb_execute_command br retries [''shell'', command]"

definition adb_pull_file ::
  "bridge \<Rightarrow> nat \<Rightarrow> string \<Rightarrow> string \<Rightarrow> bool \<times> string list list" where
  "adb_pull_file br retries remote_path local_path =
     (case adb_execute_command br retries [''pull'', remote_path, local_path] of
        ((success, _), log) \<Rightarrow> (success, log))"

text \<open>
  \<open>take_screenshot\<close> of the bridge client. What it needs of the host: the working
  directory, whether the output directory can be made, and the clock readings (seconds) at
  the two calls of \<open>time.time()\<close>, for the name of the local file and for the temporary
  path on the device.
\<close>

record screenshot_host =
  cwd :: string
  makedirs_ok :: bool
  time_local :: nat
  time_remote :: nat

definition default_screenshot_path :: "screenshot_host \<Rightarrow> string \<Rightarrow> string" where
  "default_screenshot_path host device_id =
     (let output_dir = path_join (path_join (cwd host) ''screenshots'') ''output'';
          safe_device_id = replace_char (CHR ''.'') (CHR ''_'')
                             (replace_char (CHR '':'') (CHR ''_'') device_id)
      in path_join output_dir
           (''screenshot_'' @ safe_device_id @ ''_'' @ str_nat (time_local host) @ ''.png''))"

definition remote_screenshot_path :: "nat \<Rightarrow> string" where
  "remote_screenshot_path timestamp = ''/sdcard/screenshot_'' @ str_nat timestamp @ ''.png''"

text \<open>
  Without a local path (\<open>None\<close> or the empty text) the path is generated under the
  output directory, which is made first; if that raises, the method returns \<open>None\<close>
  before any command is sent. Then the screen is captured to the temporary path on the
  device, the file is pulled and the temporary file is removed. The result is the returned
  path (\<open>None\<close> on failure) and the log of all commands spawned.
\<close>

definition adb_take_screenshot ::
  "bridge \<Rightarrow> nat \<Rightarrow> screenshot_host \<Rightarrow> string \<Rightarrow> string option
     \<Rightarrow> string option \<times> string list list" where
  "adb_take_screenshot br retries host device_id local_path =
     (case (if local_path = None \<or> local_path = Some []
            then (if makedirs_ok host then Some (default_screenshot_path host device_id)
                  else None)
            else local_path) of
        None \<Rightarrow> (None, [])
      | Some path \<Rightarrow>
          (let remote_path = remote_screenshot_path (time_remote host);
               (captured, log1) = adb_shell_command br retries (''screencap -p '' @ remote_path)
           in if \<not> fst captured then (None, log1)
              else
                (let (pulled, log2) = adb_pull_file br retries remote_path path
                 in if \<not> pulled then (None, log1 @ log2)
                    else
                      (let (removed, log3) = adb_shell_command br retries (''rm '' @ remote_path)
                       in (Some path, log1 @ log2 @ log3)))))"

section \<open>Device manager (modules/device\_manager.py)\<close>

record device =
  dev_id :: string
  name :: device_name
  ip :: string
  port :: string
  connected :: bool
  status :: status_text
  last_connection_attempt :: nat
  connection_attempts :: nat
  current_action :: "action_tag option"
  info :: "(string \<times> string) list"

type_synonym devices = "string \<rightharpoonup> device"

subsection \<open>Roster file\<close>

definition new_device :: "string \<Rightarrow> device_name \<Rightarrow> string \<Rightarrow> string \<Rightarrow> device" where
  "new_device device_id nm i p =
     \<lparr> dev_id = device_id, name = nm, ip = i, port = p, connected = False,
       status = StatusNotConnected, last_connection_attempt = 0,
       connection_attempts = 0, current_action = None, info = [] \<rparr>"

text \<open>
  What one line of the roster file stands for: the line is stripped, empty lines and lines
  starting with \<open>#\<close> are skipped, the rest is split at colons and only a line with at
  least two fields gives a record, keyed by the first two fields joined by a colon.
\<close>

definition parse_line :: "string \<Rightarrow> (string \<times> device) option" where
  "parse_line raw =
     (let line = strip raw in
      if line = [] \<or> startswith line ''#'' then None
      else (case py_split (CHR '':'') line of
              i # p # rest \<Rightarrow>
                (let device_id = i @ '':'' @ p;
                     nm = (case rest of [] \<Rightarrow> DefaultName device_id | n # _ \<Rightarrow> GivenName n)
                 in Some (device_id, new_device device_id nm i p))
            | _ \<Rightarrow> None))"

text \<open>
  The parsing loop of \<open>load_devices\<close>. After a record is stored, a device without a logger
  gets one from \<open>get_device_logger\<close>, which opens a log file named after the device id;
  \<open>logger_ok\<close> says for which ids that succeeds, and \<open>loggers\<close> are the ids that have a
  logger. When it raises, the method returns \<open>False\<close> at once: the record of that line is
  stored and the lines after it are not parsed.
\<close>

fun load_lines ::
  "(string \<Rightarrow> bool) \<Rightarrow> devices \<Rightarrow> string set \<Rightarrow> string list
     \<Rightarrow> bool \<times> devices \<times> string set" where
  "load_lines logger_ok devs loggers [] = (True, devs, loggers)"
| "load_lines logger_ok devs loggers (raw # rest) =
     (case parse_line raw of
        None \<Rightarrow> load_lines logger_ok devs loggers rest
      | Some (device_id, d) \<Rightarrow>
          (if device_id \<in> loggers
           then load_lines logger_ok (devs(device_id \<mapsto> d)) loggers rest
           else if logger_ok device_id
           then load_lines logger_ok (devs(device_id \<mapsto> d)) (insert device_id loggers) rest
           else (False, devs(device_id \<mapsto> d), loggers)))"

text \<open>
  After the loop the method starts the status task if
  \<open>self.auto_reconnect and self.status_check_interval > 0\<close>. Both settings are taken
  from the configuration dictionary as they are. The value of the condition is \<open>None\<close>
  when evaluating it raises: the first setting is true and the second is not a number, so
  that comparing it with 0 is a type error.
\<close>

fun greater_zero :: "pyval \<Rightarrow> bool option" where
  "greater_zero (PyBool b) = Some b"
| "greater_zero (PyInt i) = Some (0 < i)"
| "greater_zero v = None"

definition status_task_due :: "pyval \<Rightarrow> pyval \<Rightarrow> bool option" where
  "status_task_due auto_reconnect status_check_interval =
     (if truthy auto_reconnect then greater_zero status_check_interval else Some False)"

text \<open>
  \<open>load_devices\<close>. The roster file does not exist, or reading it raises (it cannot be
  opened or is not UTF-8), or it gives its lines. In the first two cases the method returns
  \<open>False\<close> and leaves the roster as it was; otherwise the roster is rebuilt from the
  empty dictionary. When the loop has parsed every line, the condition for the status task
  is evaluated; if that raises, the method returns \<open>False\<close> with the rebuilt roster, and
  starting the status task leaves the roster alone. The result is what the method returns,
  the roster and the ids with a logger.
\<close>

datatype roster_file = Missing | Unreadable | Lines "string list"

definition load_devices ::
  "pyval \<Rightarrow> pyval \<Rightarrow> (string \<Rightarrow> bool) \<Rightarrow> devices \<Rightarrow> string set \<Rightarrow> roster_file
     \<Rightarrow> bool \<times> devices \<times> string set" where
  "load_devices auto_reconnect status_check_interval logger_ok devs loggers file =
     (case file of
        Missing \<Rightarrow> (False, devs, loggers)
      | Unreadable \<Rightarrow> (False, devs, loggers)
      | Lines lines \<Rightarrow>
          (case load_lines logger_ok Map.empty loggers lines of
             (parsed, devs', loggers') \<Rightarrow>
               (parsed \<and> status_task_due auto_reconnect status_check_interval \<noteq> None,
                devs', loggers')))"

subsection \<open>Operations on one device\<close>

text \<open>Assignment to fields of \<open>self.devices[device_id]\<close>, for a device that is present.\<close>

definition update_dev :: "devices \<Rightarrow> string \<Rightarrow> (device \<Rightarrow> device) \<Rightarrow> devices" where
  "update_dev devs device_id f =
     (case devs device_id of None \<Rightarrow> devs | Some d \<Rightarrow> devs(device_id \<mapsto> f d))"

definition update_device_action :: "devices \<Rightarrow> string \<Rightarrow> action_tag option \<Rightarrow> bool \<times> devices" where
  "update_device_action devs device_id action =
     (if device_id \<notin> dom devs then (False, devs)
      else (True, update_dev devs device_id (\<lambda>d. d\<lparr>current_action := action\<rparr>)))"

definition connect_failed :: "devices \<Rightarrow> string \<Rightarrow> devices" where
  "connect_failed devs device_id =
     update_dev devs device_id (\<lambda>d. d\<lparr>connected := False, status := StatusConnectError\<rparr>)"

text \<open>
  \<open>connect_device\<close>. \<open>now\<close> is the clock reading, \<open>adb_connect\<close> the outcome of the
  bridge client's \<open>connect_device\<close> and \<open>adb_info\<close> that of its \<open>get_device_info\<close>
  (awaited only after a successful connect).
\<close>

definition connect_device ::
  "devices \<Rightarrow> string \<Rightarrow> nat \<Rightarrow> bool outcome \<Rightarrow> (string \<times> string) list outcome
     \<Rightarrow> bool outcome \<times> devices" where
  "connect_device devs device_id now adb_connect adb_info =
     (if device_id \<notin> dom devs then (Returns False, devs)
      else
        (let devs1 = update_dev devs device_id
               (\<lambda>d. d\<lparr>last_connection_attempt := now,
                        connection_attempts := connection_attempts d + 1\<rparr>)
         in case adb_connect of
              Cancelled \<Rightarrow> (Cancelled, devs1)
            | Raises \<Rightarrow> (Returns False, connect_failed devs1 device_id)
            | Returns False \<Rightarrow> (Returns False, connect_failed devs1 device_id)
            | Returns True \<Rightarrow>
                (case adb_info of
                   Cancelled \<Rightarrow> (Cancelled, devs1)
                 | Raises \<Rightarrow> (Returns False, connect_failed devs1 device_id)
                 | Returns device_info \<Rightarrow>
                     (Returns True,
                      update_dev devs1 device_id
                        (\<lambda>d. d\<lparr>connected := True, status := StatusConnected,
                                 info := device_info\<rparr>)))))"

definition disconnect_device :: "devices \<Rightarrow> string \<Rightarrow> bool outcome \<Rightarrow> bool outcome \<times> devices" where
  "disconnect_device devs device_id adb_disconnect =
     (if device_id \<notin> dom devs then (Returns False, devs)
      else
        (case adb_disconnect of
           Cancelled \<Rightarrow> (Cancelled, devs)
         | Raises \<Rightarrow>
             (Returns False,
              update_dev devs device_id
                (\<lambda>d. d\<lparr>connected := False, status := StatusDisconnectError\<rparr>))
         | Returns success \<Rightarrow>
             (Returns success,
              update_dev devs device_id
                (\<lambda>d. d\<lparr>connected := False, status := StatusDisconnected,
                         current_action := None\<rparr>))))"

text \<open>
  The status sweep \<open>update_device_statuses\<close>, for the state the bridge lists a device in
  (\<open>None\<close>: not listed). This is the only place that resets the attempt counter.
\<close>

definition sweep_device :: "string option \<Rightarrow> device \<Rightarrow> device" where
  "sweep_device listed d =
     (case listed of
        Some state \<Rightarrow>
          (if state = ''device''
           then d\<lparr>connected := True, status := StatusConnected, connection_attempts := 0\<rparr>
           else d\<lparr>connected := False, status := StatusNotReady state\<rparr>)
      | None \<Rightarrow> d\<lparr>connected := False, status := StatusDisconnected\<rparr>)"

definition update_device_statuses :: "devices \<Rightarrow> (string \<times> string) list outcome \<Rightarrow> devices" where
  "update_device_statuses devs adb_devices =
     (case adb_devices of
        Returns listed \<Rightarrow> (\<lambda>k. map_option (sweep_device (map_of (rev listed) k)) (devs k))
      | _ \<Rightarrow> devs)"

text \<open>
  The tagging operations share one shape: reject an unknown device, reject a device that is
  not connected, set the tag, await the bridge client, clear the tag, return. The
  \<open>except Exception\<close> clause clears the tag too; a cancellation is not caught by it.
\<close>

definition tagged_call ::
  "devices \<Rightarrow> string \<Rightarrow> action_tag \<Rightarrow> 'a outcome \<Rightarrow> 'a \<Rightarrow> 'a outcome \<times> devices" where
  "tagged_call devs device_id tag adb_result failure =
     (if device_id \<notin> dom devs then (Returns failure, devs)
      else if \<not> connected (the (devs device_id)) then (Returns failure, devs)
      else
        (let devs1 = snd (update_device_action devs device_id (Some tag))
         in case adb_result of
              Returns r \<Rightarrow> (Returns r, snd (update_device_action devs1 device_id None))
            | Raises \<Rightarrow> (Returns failure, snd (update_device_action devs1 device_id None))
            | Cancelled \<Rightarrow> (Cancelled, devs1)))"

definition label_or :: "string option \<Rightarrow> action_tag \<Rightarrow> action_tag" where
  "label_or action_description dflt =
     (case action_description of
        None \<Rightarrow> dflt
      | Some text \<Rightarrow> (if text = [] then dflt else Label text))"

definition input_tap ::
  "devices \<Rightarrow> string \<Rightarrow> int \<Rightarrow> int \<Rightarrow> string option \<Rightarrow> bool outcome
     \<Rightarrow> bool outcome \<times> devices" where
  "input_tap devs device_id x y action_description adb_tap =
     tagged_call devs device_id (label_or action_description (TagTap x y)) adb_tap False"

definition input_text ::
  "devices \<Rightarrow> string \<Rightarrow> string \<Rightarrow> string option \<Rightarrow> bool outcome
     \<Rightarrow> bool outcome \<times> devices" where
  "input_text devs device_id text action_description adb_text =
     tagged_call devs device_id (label_or action_description TagText) adb_text False"

definition restart_app ::
  "devices \<Rightarrow> string \<Rightarrow> string \<Rightarrow> string option \<Rightarrow> bool outcome
     \<Rightarrow> bool outcome \<times> devices" where
  "restart_app devs device_id package_name action_description adb_restart =
     tagged_call devs device_id (label_or action_description (TagRestart package_name))
       adb_restart False"

text \<open>
  \<open>take_screenshot\<close> returns the path only when it is a non-empty string
  (\<open>if screenshot_path:\<close>).
\<close>

definition take_screenshot ::
  "devices \<Rightarrow> string \<Rightarrow> string option outcome \<Rightarrow> string option outcome \<times> devices" where
  "take_screenshot devs device_id adb_screenshot =
     (case tagged_call devs device_id TagScreenshot adb_screenshot None of
        (Returns (Some path), devs') \<Rightarrow> (Returns (if path = [] then None else Some path), devs')
      | r \<Rightarrow> r)"

text \<open>
  \<open>execute_adb_command\<close> tags the device only when a non-empty description is given. The
  third component of its result is the error text; the two rejections have fixed texts.
\<close>

definition truthy_text :: "string option \<Rightarrow> bool" where
  "truthy_text t = (case t of None \<Rightarrow> False | Some text \<Rightarrow> text \<noteq> [])"

definition execute_adb_command ::
  "devices \<Rightarrow> string \<Rightarrow> string list \<Rightarrow> string option
     \<Rightarrow> command_result outcome \<Rightarrow> command_result outcome \<times> devices" where
  "execute_adb_command devs device_id command action_description adb_exec =
     (if device_id \<notin> dom devs then (Returns (False, [], ErrNotInRoster), devs)
      else if \<not> connected (the (devs device_id))
      then (Returns (False, [], ErrNotConnected), devs)
      else
        (let devs1 = (if truthy_text action_description
                      then snd (update_device_action devs device_id
                                  (map_option Label action_description))
                      else devs);
             cleared = (if truthy_text action_description
                        then snd (update_device_action devs1 device_id None)
                        else devs1)
         in case adb_exec of
              Returns (success, out, err) \<Rightarrow> (Returns (success, out, err), cleared)
            | Raises \<Rightarrow> (Returns (False, [], ErrException), cleared)
            | Cancelled \<Rightarrow> (Cancelled, devs1)))"

definition execute_shell_command ::
  "devices \<Rightarrow> string \<Rightarrow> string \<Rightarrow> string option
     \<Rightarrow> command_result outcome \<Rightarrow> command_result outcome \<times> devices" where
  "execute_shell_command devs device_id command action_description adb_exec =
     execute_adb_command devs device_id [''shell'', command] action_description adb_exec"

section \<open>Script store (modules/config\_loader.py)\<close>

text \<open>
  A function of a script module is synchronous: called with the device id, the device
  manager (its roster) and keyword arguments, it returns (the model keeps the truth value
  of what it returns) or raises (\<open>None\<close>), and it may have changed the roster.
\<close>

type_synonym callable = "string \<Rightarrow> (string \<rightharpoonup> device) \<Rightarrow> pydict \<Rightarrow> bool option \<times> (string \<rightharpoonup> device)"

datatype attr = Data pyval | Callable callable

type_synonym pymodule = "string \<rightharpoonup> attr"

text \<open>What executing a script file gives: a module, or an exception.\<close>

datatype script_file = Broken | Module pymodule

type_synonym script_files = "string \<rightharpoonup> script_file"

record loaded_config =
  cfg_name :: string
  cfg_path :: string
  cfg_module :: pymodule
  config :: pydict

record config_loader =
  configs_dir :: string
  loaded_configs :: "string \<rightharpoonup> loaded_config"

definition config_path :: "string \<Rightarrow> string \<Rightarrow> string" where
  "config_path dir config_name = path_join dir (config_name @ ''.py'')"

definition load_config ::
  "script_files \<Rightarrow> config_loader \<Rightarrow> string \<Rightarrow> loaded_config option \<times> config_loader" where
  "load_config files cl config_name =
     (case loaded_configs cl config_name of
        Some entry \<Rightarrow> (Some entry, cl)
      | None \<Rightarrow>
          (case files (config_path (configs_dir cl) config_name) of
             None \<Rightarrow> (None, cl)
           | Some Broken \<Rightarrow> (None, cl)
           | Some (Module m) \<Rightarrow>
               (case m ''CONFIG'' of
                  Some (Data (PyDict c)) \<Rightarrow>
                    (let entry = \<lparr> cfg_name = config_name,
                                     cfg_path = config_path (configs_dir cl) config_name,
                                     cfg_module = m, config = c \<rparr>
                     in (Some entry,
                         cl\<lparr>loaded_configs := (loaded_configs cl)(config_name \<mapsto> entry)\<rparr>))
                | _ \<Rightarrow> (None, cl))))"

definition is_config_loaded :: "config_loader \<Rightarrow> string \<Rightarrow> bool" where
  "is_config_loaded cl config_name = (config_name \<in> dom (loaded_configs cl))"

definition get_loaded_config :: "config_loader \<Rightarrow> string \<Rightarrow> loaded_config option" where
  "get_loaded_config cl config_name = loaded_configs cl config_name"

text \<open>
  The checks of \<open>validate_config\<close> on the \<open>CONFIG\<close> dictionary, in the order of the
  source: the required fields \<open>actions\<close> and \<open>steps\<close> are present, both are lists, and
  \<open>enabled_steps\<close>, when present, is a dictionary. The look at \<open>next_config\<close> only logs
  a warning.
\<close>

definition check_config :: "pydict \<Rightarrow> bool" where
  "check_config c =
     (if map_of c ''actions'' = None then False
      else if map_of c ''steps'' = None then False
      else if \<not> is_list (the (map_of c ''actions'')) then False
      else if \<not> is_list (the (map_of c ''steps'')) then False
      else if map_of c ''enabled_steps'' \<noteq> None \<and> \<not> is_dict (the (map_of c ''enabled_steps''))
      then False
      else True)"

definition validate_config ::
  "script_files \<Rightarrow> config_loader \<Rightarrow> string \<Rightarrow> bool \<times> config_loader" where
  "validate_config files cl config_name =
     (let cl1 = (if is_config_loaded cl config_name then cl
                 else snd (load_config files cl config_name))
      in case loaded_configs cl1 config_name of
           None \<Rightarrow> (False, cl1)
         | Some entry \<Rightarrow> (check_config (config entry), cl1))"

text \<open>\<open>reload_config\<close>: the cached entry is deleted first, then the script is loaded.\<close>

definition reload_config ::
  "script_files \<Rightarrow> config_loader \<Rightarrow> string \<Rightarrow> bool \<times> config_loader" where
  "reload_config files cl config_name =
     (let cl1 = cl\<lparr>loaded_configs := (loaded_configs cl)(config_name := None)\<rparr>
      in case load_config files cl1 config_name of
           (Some entry, cl2) \<Rightarrow> (True, cl2)
         | (None, cl2) \<Rightarrow> (False, cl2))"

section \<open>Step executor (modules/action\_executor.py)\<close>

text \<open>
  What a run reports and calls, in order: the progress bar is created, a hook or a step
  handler (by action name) is called, a disabled step is skipped, the progress bar is
  completed with the overall result.
\<close>

datatype event =
    Started
  | InitializeCalled
  | FinalizeCalled bool
  | HandlerCalled string
  | StepSkipped nat
  | Completed bool

record executor =
  dm :: "string \<rightharpoonup> device"
  loader :: config_loader
  exec_running :: bool
  running_configs :: "string \<rightharpoonup> string"
  running_devices :: "string set"
  events :: "event list"

definition emit :: "event \<Rightarrow> executor \<Rightarrow> executor" where
  "emit e st = st\<lparr>events := events st @ [e]\<rparr>"

definition device_connected :: "(string \<rightharpoonup> device) \<Rightarrow> string \<Rightarrow> bool" where
  "device_connected devs device_id =
     (case devs device_id of None \<Rightarrow> False | Some d \<Rightarrow> connected d)"

text \<open>The block under the state lock that ends a run: the device leaves the run-set.\<close>

definition release :: "string \<Rightarrow> executor \<Rightarrow> executor" where
  "release device_id st =
     st\<lparr>running_configs := (running_configs st)(device_id := None),
        running_devices := running_devices st - {device_id}\<rparr>"

definition fail_run :: "string \<Rightarrow> executor \<Rightarrow> bool \<times> executor" where
  "fail_run device_id st = (False, release device_id (emit (Completed False) st))"

definition set_tag :: "string \<Rightarrow> action_tag option \<Rightarrow> executor \<Rightarrow> executor" where
  "set_tag device_id tag st = st\<lparr>dm := snd (update_device_action (dm st) device_id tag)\<rparr>"

text \<open>
  The handlers of \<open>asyncio.CancelledError\<close> and of \<open>Exception\<close> around the whole run do
  the same: clear the tag, complete the progress bar with failure, leave the run-set.
\<close>

definition abort_run :: "string \<Rightarrow> executor \<Rightarrow> bool \<times> executor" where
  "abort_run device_id st = fail_run device_id (set_tag device_id None st)"

text \<open>
  \<open>initialize\<close>, when the module has the attribute: the run goes on only if the call
  returns a true value; a false value or an exception (also the \<open>TypeError\<close> of
  calling something that is no function) fails the run.
\<close>

definition run_initialize :: "pymodule \<Rightarrow> string \<Rightarrow> executor \<Rightarrow> bool \<times> executor" where
  "run_initialize m device_id st =
     (case m ''initialize'' of
        None \<Rightarrow> (True, st)
      | Some (Data v) \<Rightarrow> (False, st)
      | Some (Callable f) \<Rightarrow>
          (case f device_id (dm st) [] of
             (r, devs') \<Rightarrow> (r = Some True, emit InitializeCalled (st\<lparr>dm := devs'\<rparr>))))"

text \<open>
  \<open>finalize\<close>, when the module has the attribute: it is called with the overall result;
  an exception (also the \<open>TypeError\<close> of calling something that is no function) is
  logged and suppressed.
\<close>

definition run_finalize :: "pymodule \<Rightarrow> string \<Rightarrow> bool \<Rightarrow> executor \<Rightarrow> executor" where
  "run_finalize m device_id success st =
     (case m ''finalize'' of
        None \<Rightarrow> st
      | Some (Data v) \<Rightarrow> st
      | Some (Callable f) \<Rightarrow>
          (case f device_id (dm st) [(''success'', PyBool success)] of
             (r, devs') \<Rightarrow> emit (FinalizeCalled success) (st\<lparr>dm := devs'\<rparr>)))"

text \<open>
  At the top of each iteration the step loop reads \<open>self.running\<close> and then waits on the
  pause gate; the environment decides what it finds there.
\<close>

datatype gate = Proceed | Stopped | CancelledAtGate

datatype loop_exit = Finished bool | LoopCancelled | LoopRaised

text \<open>
  The name and the description of step \<open>i\<close> (counted from 0): the values under \<open>name\<close>
  and \<open>description\<close>. The default name is the f-string of a Russian word, a space and
  \<open>i + 1\<close>; the default description is the name.
\<close>

definition default_step_name :: "nat \<Rightarrow> string" where
  "default_step_name i =
     [CHR 0xD0, CHR 0xA8, CHR 0xD0, CHR 0xB0, CHR 0xD0, CHR 0xB3, CHR '' ''] @ str_nat (i + 1)"

definition step_name_of :: "nat \<Rightarrow> pydict \<Rightarrow> pyval" where
  "step_name_of i step =
     (case map_of step ''name'' of None \<Rightarrow> PyStr (default_step_name i) | Some v \<Rightarrow> v)"

definition step_description_of :: "nat \<Rightarrow> pydict \<Rightarrow> pyval" where
  "step_description_of i step =
     (case map_of step ''description'' of None \<Rightarrow> step_name_of i step | Some v \<Rightarrow> v)"

text \<open>
  \<open>step_name in enabled_steps and not enabled_steps[step_name]\<close>. \<open>None\<close>: the test
  raises, as it does for a name that is a list or a dictionary (unhashable). A name that
  is no text is not among the keys.
\<close>

definition step_disabled :: "pydict \<Rightarrow> pyval \<Rightarrow> bool option" where
  "step_disabled enabled_steps nm =
     (case nm of
        PyStr s \<Rightarrow>
          (case map_of enabled_steps s of None \<Rightarrow> Some False | Some v \<Rightarrow> Some (\<not> truthy v))
      | PyList xs \<Rightarrow> None
      | PyDict kvs \<Rightarrow> None
      | _ \<Rightarrow> Some False)"

fun run_steps ::
  "pymodule \<Rightarrow> pydict \<Rightarrow> string \<Rightarrow> (nat \<Rightarrow> gate) \<Rightarrow> nat \<Rightarrow> pyval list \<Rightarrow> executor
     \<Rightarrow> loop_exit \<times> executor" where
  "run_steps m enabled_steps device_id gates i [] st = (Finished True, st)"
| "run_steps m enabled_steps device_id gates i (step # rest) st =
     (case gates i of
        Stopped \<Rightarrow> (Finished True, st)
      | CancelledAtGate \<Rightarrow> (LoopCancelled, st)
      | Proceed \<Rightarrow>
          (case step of
             PyDict sd \<Rightarrow>
               (case step_disabled enabled_steps (step_name_of i sd) of
                  None \<Rightarrow> (LoopRaised, st)
                | Some True \<Rightarrow>
                    run_steps m enabled_steps device_id gates (i + 1) rest (emit (StepSkipped i) st)
                | Some False \<Rightarrow>
                    (case map_of sd ''action'' of
                       None \<Rightarrow> (Finished False, st)
                     | Some (PyStr action_name) \<Rightarrow>
                         (if action_name = [] then (Finished False, st)
                          else
                            (case m action_name of
                               None \<Rightarrow> (Finished False, st)
                             | Some (Data v) \<Rightarrow> (Finished False, st)
                             | Some (Callable f) \<Rightarrow>
                                 (let st1 = set_tag device_id
                                              (Some (TagStep (step_description_of i sd))) st
                                  in case f device_id (dm st1) sd of
                                       (Some True, devs') \<Rightarrow>
                                         run_steps m enabled_steps device_id gates (i + 1) rest
                                           (emit (HandlerCalled action_name) (st1\<lparr>dm := devs'\<rparr>))
                                     | (r, devs') \<Rightarrow>
                                         (Finished False,
                                          emit (HandlerCalled action_name) (st1\<lparr>dm := devs'\<rparr>)))))
                     | Some v \<Rightarrow> (if truthy v then (LoopRaised, st) else (Finished False, st))))
           | _ \<Rightarrow> (LoopRaised, st)))"

text \<open>
  \<open>execute_config\<close> for one device and one script name. \<open>files\<close> are the script files
  (validation may have to load the script) and \<open>gates\<close> is the environment of the step
  loop. The result is what the method returns and the executor afterwards.
\<close>

definition execute_config ::
  "script_files \<Rightarrow> (nat \<Rightarrow> gate) \<Rightarrow> executor \<Rightarrow> string \<Rightarrow> string \<Rightarrow> bool \<times> executor" where
  "execute_config files gates st device_id config_name =
     (let st0 = emit Started
                  (st\<lparr>exec_running := True,
                      running_configs := (running_configs st)(device_id \<mapsto> config_name),
                      running_devices := insert device_id (running_devices st)\<rparr>);
          (valid, loader1) = validate_config files (loader st0) config_name;
          st1 = st0\<lparr>loader := loader1\<rparr>
      in if \<not> valid then fail_run device_id st1
         else
           (case get_loaded_config loader1 config_name of
              None \<Rightarrow> fail_run device_id st1
            | Some config_data \<Rightarrow>
                (let m = cfg_module config_data; c = config config_data
                 in if \<not> device_connected (dm st1) device_id then fail_run device_id st1
                    else
                      (case run_initialize m device_id st1 of
                         (False, st2) \<Rightarrow> fail_run device_id st2
                       | (True, st2) \<Rightarrow>
                           (let steps = (case map_of c ''steps'' of None \<Rightarrow> PyList [] | Some v \<Rightarrow> v)
                            in if \<not> truthy steps
                               then fail_run device_id (run_finalize m device_id False st2)
                               else
                                 (case steps of
                                    PyList xs \<Rightarrow>
                                      (let enabled_steps =
                                             (case map_of c ''enabled_steps'' of
                                                Some (PyDict e) \<Rightarrow> e | _ \<Rightarrow> [])
                                       in case run_steps m enabled_steps device_id gates 0 xs st2 of
                                            (Finished success, st3) \<Rightarrow>
                                              (let st4 = run_finalize m device_id success
                                                           (set_tag device_id None st3)
                                               in (success,
                                                   release device_id (emit (Completed success) st4)))
                                          | (LoopCancelled, st3) \<Rightarrow> abort_run device_id st3
                                          | (LoopRaised, st3) \<Rightarrow> abort_run device_id st3)
                                  | _ \<Rightarrow> abort_run device_id st2))))))"

section \<open>Image matcher (modules/image\_processor.py)\<close>

text \<open>
  \<open>find_all_templates\<close> works on the score map that \<open>cv2.matchTemplate\<close> returns: one
  score per position of the template's top-left corner, \<open>result[y][x]\<close>. The scores are
  ordered numbers; the model takes them as integers (thousandths) and the map as a list of
  rows.

  \<open>cv2.minMaxLoc\<close>: the largest score and its position, the first one in row order among
  equals; \<open>None\<close> when the map has no cell (the library raises).
\<close>

type_synonym score_map = "int list list"

fun best_of :: "(int \<times> nat \<times> nat) list \<Rightarrow> (int \<times> nat \<times> nat) option" where
  "best_of [] = None"
| "best_of (c # cs) =
     (case best_of cs of
        None \<Rightarrow> Some c
      | Some b \<Rightarrow> (if fst c < fst b then Some b else Some c))"

definition cells :: "score_map \<Rightarrow> (int \<times> nat \<times> nat) list" where
  "cells result =
     concat (map (\<lambda>(y, row). map (\<lambda>(x, v). (v, x, y)) (enumerate 0 row)) (enumerate 0 result))"

definition min_max_loc :: "score_map \<Rightarrow> (int \<times> nat \<times> nat) option" where
  "min_max_loc result = best_of (cells result)"

text \<open>
  A bound of a slice \<open>a[start:stop]\<close> on an axis of length \<open>n\<close>: a negative bound counts
  from the end, and the bound is clipped to \<open>0 .. n\<close>.
\<close>

definition slice_index :: "nat \<Rightarrow> int \<Rightarrow> nat" where
  "slice_index n i =
     (let j = (if i < 0 then i + int n else i)
      in if j < 0 then 0 else if int n < j then n else nat j)"

definition zero_slice :: "int \<Rightarrow> int \<Rightarrow> int list \<Rightarrow> int list" where
  "zero_slice start stop row =
     map (\<lambda>(j, v). if slice_index (length row) start \<le> j \<and> j < slice_index (length row) stop
                    then 0 else v)
       (enumerate 0 row)"

text \<open>
  The assignment \<open>result[y-h//2:y+h//2+h, x-w//2:x+w//2+w] = 0\<close> after a match at
  \<open>(x, y)\<close> of a template of width \<open>w\<close> and height \<open>h\<close>.
\<close>

definition suppress :: "score_map \<Rightarrow> nat \<Rightarrow> nat \<Rightarrow> nat \<Rightarrow> nat \<Rightarrow> score_map" where
  "suppress result x y w h =
     map (\<lambda>(i, row).
            if slice_index (length result) (int y - int (h div 2)) \<le> i
               \<and> i < slice_index (length result) (int y + int (h div 2) + int h)
            then zero_slice (int x - int (w div 2)) (int x + int (w div 2) + int w) row
            else row)
       (enumerate 0 result)"

text \<open>
  The search loop with \<open>remaining = max_results - count\<close> iterations left. It yields the
  matches \<open>(x, y, w, h, score)\<close> found from here on, or \<open>None\<close> when \<open>minMaxLoc\<close>
  raises.
\<close>

type_synonym match = "nat \<times> nat \<times> nat \<times> nat \<times> int"

fun find_all_loop :: "nat \<Rightarrow> int \<Rightarrow> nat \<Rightarrow> nat \<Rightarrow> score_map \<Rightarrow> match list option" where
  "find_all_loop 0 match_threshold w h result = Some []"
| "find_all_loop (Suc remaining) match_threshold w h result =
     (case min_max_loc result of
        None \<Rightarrow> None
      | Some (max_val, x, y) \<Rightarrow>
          (if max_val < match_threshold then Some []
           else (case find_all_loop remaining match_threshold w h (suppress result x y w h) of
                   None \<Rightarrow> None
                 | Some found \<Rightarrow> Some ((x, y, w, h, max_val) # found))))"

text \<open>
  \<open>find_all_templates\<close> for the score map of the screenshot against the template, whose
  size is \<open>(w, h)\<close> (\<open>None\<close>: the template could not be loaded). Any exception makes it
  return the empty list.
\<close>

definition find_all_templates ::
  "score_map \<Rightarrow> (nat \<times> nat) option \<Rightarrow> int \<Rightarrow> int \<Rightarrow> match list" where
  "find_all_templates result template match_threshold max_results =
     (case template of
        None \<Rightarrow> []
      | Some (w, h) \<Rightarrow>
          (case find_all_loop (nat max_results) match_threshold w h result of
             None \<Rightarrow> []
           | Some found \<Rightarrow> found))"

section \<open>Scheduler (modules/scheduler.py)\<close>

text \<open>
  One iteration of the trigger loop observes the scheduler's \<open>running\<close> and \<open>paused\<close>
  flags and, when it is neither stopped nor paused, reads the clock (seconds since
  midnight). \<open>_scheduler_task\<close> over the successive observations yields the clock
  readings at which it awaited \<open>run_automation\<close>.
\<close>

record sample =
  running :: bool
  paused :: bool
  clock :: nat

fun scheduler_task :: "int list \<Rightarrow> sample list \<Rightarrow> nat list" where
  "scheduler_task run_minutes [] = []"
| "scheduler_task run_minutes (s # rest) =
     (if \<not> running s then []
      else if paused s then scheduler_task run_minutes rest
      else
        (let current_minute = int ((clock s div 60) mod 60);
             previous_minute = (current_minute - 1) mod 60
         in (if current_minute \<in> set run_minutes \<and> previous_minute \<notin> set run_minutes
             then [clock s] else [])
            @ scheduler_task run_minutes rest))"

section \<open>Example inputs\<close>

text \<open>The loop sleeping 10 seconds between samples, running and not paused.\<close>

definition every_10s :: "nat \<Rightarrow> nat \<Rightarrow> sample list" where
  "every_10s start n =
     map (\<lambda>k. \<lparr>running = True, paused = False, clock = start + 10 * k\<rparr>) [0..<n]"

text \<open>A bridge on which every \<open>pull\<close> fails and every other command succeeds.\<close>

definition pull_fails :: bridge where
  "pull_fails command attempt =
     (case command of
        c # _ \<Rightarrow>
          (if c = ''pull'' then Exited 1 [] ''adb: error: failed to copy''
           else Exited 0 [] [])
      | [] \<Rightarrow> SpawnError)"

text \<open>A host for screenshots, at clock reading 1700000000.\<close>

definition host1 :: screenshot_host where
  "host1 = \<lparr> cwd = ''/opt/bot'', makedirs_ok = True,
             time_local = 1700000000, time_remote = 1700000000 \<rparr>"

text \<open>A bridge on which every command succeeds at the first attempt.\<close>

definition all_ok :: bridge where
  "all_ok command attempt = Exited 0 [] []"

text \<open>
  A roster of one network device, as \<open>load_devices\<close> builds it under the default
  settings when the logger can be created, and the same roster after a successful connect.
\<close>

definition roster1 :: devices where
  "roster1 =
     fst (snd (load_devices (PyBool True) (PyInt 60) (\<lambda>device_id. True) Map.empty {}
                 (Lines [''127.0.0.1:5555''])))"

definition connected1 :: devices where
  "connected1 = snd (connect_device roster1 ''127.0.0.1:5555'' 100 (Returns True) (Returns []))"

text \<open>
  A script store over the directory \<open>configs\<close> with nothing cached, the script file
  \<open>configs/daily.py\<close> holding a given module, a module that only defines \<open>CONFIG\<close>, and
  modules that also define hooks which return \<open>True\<close> and leave the roster alone.
\<close>

definition empty_loader :: config_loader where
  "empty_loader = \<lparr> configs_dir = ''configs'', loaded_configs = Map.empty \<rparr>"

definition files_with :: "pymodule \<Rightarrow> script_files" where
  "files_with m = [''configs/daily.py'' \<mapsto> Module m]"

definition script_of :: "pydict \<Rightarrow> pymodule" where
  "script_of c = [''CONFIG'' \<mapsto> Data (PyDict c)]"

definition hook_ok :: callable where
  "hook_ok device_id devs kwargs = (Some True, devs)"

definition hooked_script :: "pydict \<Rightarrow> pymodule" where
  "hooked_script c =
     [''CONFIG'' \<mapsto> Data (PyDict c), ''initialize'' \<mapsto> Callable hook_ok,
      ''finalize'' \<mapsto> Callable hook_ok]"

definition init_only_script :: "pydict \<Rightarrow> pymodule" where
  "init_only_script c = [''CONFIG'' \<mapsto> Data (PyDict c), ''initialize'' \<mapsto> Callable hook_ok]"

text \<open>A script with an empty step list that passes validation.\<close>

definition empty_steps :: pydict where
  "empty_steps = [(''actions'', PyList []), (''steps'', PyList [])]"

text \<open>The store after \<open>daily\<close> and \<open>weekly\<close> were loaded from their files.\<close>

definition two_scripts :: script_files where
  "two_scripts = [''configs/daily.py'' \<mapsto> Module (script_of empty_steps),
                  ''configs/weekly.py'' \<mapsto> Module (script_of empty_steps)]"

definition cached_loader :: config_loader where
  "cached_loader =
     snd (load_config two_scripts (snd (load_config two_scripts empty_loader ''daily'')) ''weekly'')"

definition fresh_executor :: "devices \<Rightarrow> executor" where
  "fresh_executor devs =
     \<lparr> dm = devs, loader = empty_loader, exec_running = False,
       running_configs = Map.empty, running_devices = {}, events = [] \<rparr>"

text \<open>
  A score map with three peaks on the diagonal, for a template of 2 by 2 pixels.
\<close>

definition demo_map :: score_map where
  "demo_map = [[0, 0, 0, 0, 0],
               [0, 900, 0, 0, 0],
               [0, 0, 0, 0, 0],
               [0, 0, 0, 800, 0],
               [0, 0, 0, 0, 700]]"

section \<open>Auxiliary notions for the proofs\<close>


text \<open>The trigger condition of the scheduler at one sample.\<close>

definition fires :: "int list \<Rightarrow> sample \<Rightarrow> bool" where
  "fires run_minutes s =
     (int ((clock s div 60) mod 60) \<in> set run_minutes
      \<and> (int ((clock s div 60) mod 60) - 1) mod 60 \<notin> set run_minutes)"

section \<open>Scheduler: the trigger loop\<close>

text \<open>
  While the scheduler runs and is not paused, the loop awaits \<open>run_automation\<close> at
  every sample that satisfies the trigger condition: the runs in a window are as many as
  the samples that fall into it.
\<close>

lemma scheduler_task_step:
  "running s \<Longrightarrow> \<not> paused s \<Longrightarrow>
   scheduler_task run_minutes (s # rest) =
     (if fires run_minutes s then [clock s] else []) @ scheduler_task run_minutes rest"
  unfolding fires_def
  by (simp only: scheduler_task.simps Let_def not_True_eq_False if_False)

lemma scheduler_task_unpaused:
  assumes "\<forall>s \<in> set samples. running s \<and> \<not> paused s"
  shows "scheduler_task run_minutes samples = map clock (filter (fires run_minutes) samples)"
  using assms
proof (induction samples)
  case Nil
  show ?case by simp
next
  case (Cons s samples)
  from Cons.prems have rs: "running s" "\<not> paused s"
    and rest: "\<forall>s \<in> set samples. running s \<and> \<not> paused s"
    by simp_all
  have "scheduler_task run_minutes (s # samples) =
     (if fires run_minutes s then [clock s] else []) @ scheduler_task run_minutes samples"
    using rs by (rule scheduler_task_step)
  also have "\<dots> = (if fires run_minutes s then [clock s] else [])
       @ map clock (filter (fires run_minutes) samples)"
    using Cons.IH [OF rest] by (rule arg_cong)
  also have "\<dots> = map clock (filter (fires run_minutes) (s # samples))"
    by (cases "fires run_minutes s") simp_all
  finally show ?case .
qed

text \<open>
  C1 at a concrete input: trigger minutes 5, 25 and 45, samples every 10 seconds from
  00:04:50 to 00:06:00. Minute 5 is entered from minute 4, which is not a trigger minute,
  and the loop awaits \<open>run_automation\<close> at each of the six samples that fall into minute 5.
\<close>

theorem scheduler_fires_every_sample:
  "scheduler_task [5, 25, 45] (every_10s 290 8) = [300, 310, 320, 330, 340, 350]"
  by (simp add: every_10s_def upt_rec Let_def)

section \<open>Step executor: a script without steps\<close>

lemma roster1_eq:
  "roster1 = [''127.0.0.1:5555'' \<mapsto>
     new_device ''127.0.0.1:5555'' (DefaultName ''127.0.0.1:5555'') ''127.0.0.1'' ''5555'']"
  by (simp add: roster1_def load_devices_def parse_line_def strip_def lstrip_def rstrip_def
      is_space_def space2_def space3_def startswith_def Let_def)

lemma connected1_eq:
  "connected1 = [''127.0.0.1:5555'' \<mapsto>
     (new_device ''127.0.0.1:5555'' (DefaultName ''127.0.0.1:5555'') ''127.0.0.1'' ''5555'')
       \<lparr> connected := True, status := StatusConnected,
         last_connection_attempt := 100, connection_attempts := 1, info := [] \<rparr>]"
  by (simp add: connected1_def connect_device_def roster1_eq update_dev_def new_device_def)

text \<open>
  C2, as stated, fails: the script \<open>daily\<close> has an empty step list and both hooks, the
  device is connected and \<open>initialize\<close> returns \<open>True\<close>. Both hooks are called and no
  handler is, but the run completes with failure and \<open>finalize\<close> is told so.
\<close>

theorem empty_steps_run_fails:
  "fst (execute_config (files_with (hooked_script empty_steps)) (\<lambda>i. Proceed)
          (fresh_executor connected1) ''127.0.0.1:5555'' ''daily'') = False
   \<and> events (snd (execute_config (files_with (hooked_script empty_steps)) (\<lambda>i. Proceed)
          (fresh_executor connected1) ''127.0.0.1:5555'' ''daily''))
      = [Started, InitializeCalled, FinalizeCalled False, Completed False]"
  by (simp add: execute_config_def validate_config_def load_config_def is_config_loaded_def
      get_loaded_config_def check_config_def config_path_def path_join_def startswith_def
      files_with_def hooked_script_def
      empty_steps_def fresh_executor_def empty_loader_def emit_def device_connected_def
      connected1_eq run_initialize_def run_finalize_def fail_run_def release_def hook_ok_def
      Let_def)

text \<open>
  C2, amended. Take a script that passes validation and whose step list is empty, a
  connected device, and an \<open>initialize\<close> hook that is absent or returns a true value.
  Then \<open>execute_config\<close> returns \<open>False\<close> (the empty step list is reported as a warning
  and the run counts as failed). What the run does, in order: it opens the progress bar,
  calls \<open>initialize\<close> if the module has it, calls \<open>finalize\<close> with success \<open>False\<close> if
  the module has it, and completes the progress bar with failure. No step handler is
  called.
\<close>

theorem empty_steps_run:
  assumes valid: "validate_config files (loader st) config_name = (True, loader1)"
      and entry: "get_loaded_config loader1 config_name = Some e"
      and empty: "map_of (config e) ''steps'' = Some (PyList [])"
      and conn: "device_connected (dm st) device_id"
      and init: "case cfg_module e ''initialize'' of
                   None \<Rightarrow> True
                 | Some (Data v) \<Rightarrow> False
                 | Some (Callable f) \<Rightarrow> fst (f device_id (dm st) []) = Some True"
  shows "fst (execute_config files gates st device_id config_name) = False
       \<and> events (snd (execute_config files gates st device_id config_name))
           = events st @ [Started]
             @ (case cfg_module e ''initialize'' of
                  Some (Callable f) \<Rightarrow> [InitializeCalled] | _ \<Rightarrow> [])
             @ (case cfg_module e ''finalize'' of
                  Some (Callable f) \<Rightarrow> [FinalizeCalled False] | _ \<Rightarrow> [])
             @ [Completed False]"
  using assms
  by (auto simp: execute_config_def emit_def run_initialize_def run_finalize_def fail_run_def
      release_def Let_def split: option.splits attr.splits prod.splits)

lemma init_only_loaded:
  "validate_config (files_with (init_only_script empty_steps)) empty_loader ''daily''
     = (True, snd (load_config (files_with (init_only_script empty_steps)) empty_loader ''daily''))
   \<and> get_loaded_config
        (snd (load_config (files_with (init_only_script empty_steps)) empty_loader ''daily''))
        ''daily''
       = Some \<lparr> cfg_name = ''daily'', cfg_path = ''configs/daily.py'',
                cfg_module = init_only_script empty_steps, config = empty_steps \<rparr>"
  by (simp add: validate_config_def load_config_def is_config_loaded_def
      get_loaded_config_def check_config_def config_path_def path_join_def startswith_def
      files_with_def
      init_only_script_def empty_steps_def empty_loader_def Let_def)

theorem empty_steps_run_witness:
  "fst (execute_config (files_with (init_only_script empty_steps)) (\<lambda>i. Proceed)
          (fresh_executor connected1) ''127.0.0.1:5555'' ''daily'') = False
   \<and> events (snd (execute_config (files_with (init_only_script empty_steps)) (\<lambda>i. Proceed)
          (fresh_executor connected1) ''127.0.0.1:5555'' ''daily''))
      = [Started, InitializeCalled, Completed False]"
proof -
  let ?files = "files_with (init_only_script empty_steps)"
  let ?e = "\<lparr> cfg_name = ''daily'', cfg_path = ''configs/daily.py'',
              cfg_module = init_only_script empty_steps, config = empty_steps \<rparr>"
  have valid: "validate_config ?files (loader (fresh_executor connected1)) ''daily''
                 = (True, snd (load_config ?files empty_loader ''daily''))"
    using init_only_loaded by (simp add: fresh_executor_def)
  have entry: "get_loaded_config (snd (load_config ?files empty_loader ''daily'')) ''daily''
                 = Some ?e"
    using init_only_loaded by simp
  have empty: "map_of (config ?e) ''steps'' = Some (PyList [])"
    by (simp add: empty_steps_def)
  have conn: "device_connected (dm (fresh_executor connected1)) ''127.0.0.1:5555''"
    by (simp add: device_connected_def fresh_executor_def connected1_eq new_device_def)
  have init: "case cfg_module ?e ''initialize'' of
                None \<Rightarrow> True
              | Some (Data v) \<Rightarrow> False
              | Some (Callable f) \<Rightarrow>
                  fst (f ''127.0.0.1:5555'' (dm (fresh_executor connected1)) []) = Some True"
    by (simp add: init_only_script_def hook_ok_def)
  show ?thesis
    using empty_steps_run [OF valid entry empty conn init, of "\<lambda>i. Proceed"]
    by (simp add: init_only_script_def fresh_executor_def)
qed

section \<open>Bridge client: screenshots\<close>

text \<open>The name of the temporary file on the device at clock reading 1700000000.\<close>

lemma str_nat_clock: "str_nat 1700000000 = ''1700000000''"
  by (simp add: str_nat.simps)

lemma remote_path_clock:
  "remote_screenshot_path 1700000000 = ''/sdcard/screenshot_1700000000.png''"
  by (simp add: remote_screenshot_path_def str_nat_clock)

text \<open>When capture and pull succeed, the temporary file is removed last.\<close>

lemma screenshot_success_removes_remote_file:
  "adb_take_screenshot all_ok 3 host1 ''127.0.0.1:5555'' (Some ''shot.png'') =
     (Some ''shot.png'',
      [[''shell'', ''screencap -p /sdcard/screenshot_1700000000.png''],
       [''pull'', ''/sdcard/screenshot_1700000000.png'', ''shot.png''],
       [''shell'', ''rm /sdcard/screenshot_1700000000.png'']])"
  by (simp add: adb_take_screenshot_def adb_shell_command_def adb_pull_file_def
      adb_execute_command_def remote_path_clock host1_def all_ok_def numeral_3_eq_3 Let_def)

text \<open>
  C3 at a concrete input: a screenshot of \<open>127.0.0.1:5555\<close> to the local path
  \<open>shot.png\<close>; the capture on the device succeeds and the pull fails (three
  attempts). The operation returns \<open>None\<close> after the capture and the three pulls; no
  \<open>rm\<close> command is sent, so the temporary file stays on the device.
\<close>

theorem screenshot_pull_failure_keeps_remote_file:
  "adb_take_screenshot pull_fails 3 host1 ''127.0.0.1:5555'' (Some ''shot.png'') =
     (None, [[''shell'', ''screencap -p /sdcard/screenshot_1700000000.png''],
             [''pull'', ''/sdcard/screenshot_1700000000.png'', ''shot.png''],
             [''pull'', ''/sdcard/screenshot_1700000000.png'', ''shot.png''],
             [''pull'', ''/sdcard/screenshot_1700000000.png'', ''shot.png'']])
   \<and> [''shell'', ''rm /sdcard/screenshot_1700000000.png'']
       \<notin> set (snd (adb_take_screenshot pull_fails 3 host1 ''127.0.0.1:5555''
                      (Some ''shot.png'')))"
  by (simp add: adb_take_screenshot_def adb_shell_command_def adb_pull_file_def
      adb_execute_command_def remote_path_clock host1_def pull_fails_def
      device_not_found_def numeral_3_eq_3 Let_def)

section \<open>Device manager: the roster file\<close>














text \<open>
  A logger that cannot be created ends the load with \<open>False\<close>: here the id \<open>a/b:1\<close>
  names a log file in a directory that does not exist, its record is stored and the
  second line is never parsed.
\<close>

lemma load_devices_logger_failure:
  "load_devices (PyBool True) (PyInt 60) (\<lambda>device_id. device_id \<noteq> ''a/b:1'') Map.empty {}
       (Lines [''a/b:1'', ''127.0.0.1:5555''])
     = (False, [''a/b:1'' \<mapsto> new_device ''a/b:1'' (DefaultName ''a/b:1'') ''a/b'' ''1''], {})"
  by (simp add: load_devices_def parse_line_def strip_def lstrip_def rstrip_def is_space_def
      space2_def space3_def startswith_def Let_def)

text \<open>So does an interval that is not a number, after the whole roster is rebuilt.\<close>

lemma load_devices_interval_failure:
  "load_devices (PyBool True) (PyStr ''60'') (\<lambda>device_id. True) Map.empty {}
       (Lines [''127.0.0.1:5555''])
     = (False,
        [''127.0.0.1:5555'' \<mapsto> new_device ''127.0.0.1:5555'' (DefaultName ''127.0.0.1:5555'')
                                  ''127.0.0.1'' ''5555''],
        {''127.0.0.1:5555''})"
  by (simp add: load_devices_def status_task_due_def parse_line_def strip_def lstrip_def
      rstrip_def is_space_def space2_def space3_def startswith_def Let_def)

text \<open>White space outside ASCII is stripped like a blank: the line is the bare serial.\<close>

lemma strip_unicode_space:
  "strip ([CHR 0xC2, CHR 0xA0] @ ''emulator-5554'' @ [CHR 0xE2, CHR 0x80, CHR 0xA8, CHR 0x0A])
     = ''emulator-5554''"
  by (simp add: strip_def lstrip_def rstrip_def is_space_def space2_def space3_def)




section \<open>Image matcher: best-then-suppress\<close>

lemma best_of_none: "best_of cs = None \<longleftrightarrow> cs = []"
  by (cases cs) (auto split: option.splits)

lemma best_of_some:
  "best_of cs = Some b \<Longrightarrow> b \<in> set cs \<and> (\<forall>c \<in> set cs. fst c \<le> fst b)"
  by (induction cs arbitrary: b) (fastforce simp: best_of_none split: option.splits if_splits)+

lemma in_cells:
  "(v, x, y) \<in> set (cells result)
     \<longleftrightarrow> y < length result \<and> x < length (result ! y) \<and> v = result ! y ! x"
proof
  assume "(v, x, y) \<in> set (cells result)"
  then obtain row where "(y, row) \<in> set (enumerate 0 result)"
    and "(x, v) \<in> set (enumerate 0 row)"
    by (auto simp: cells_def)
  then show "y < length result \<and> x < length (result ! y) \<and> v = result ! y ! x"
    by (auto simp: in_set_enumerate_eq)
next
  assume a: "y < length result \<and> x < length (result ! y) \<and> v = result ! y ! x"
  then have "(y, result ! y) \<in> set (enumerate 0 result)"
    and "(x, v) \<in> set (enumerate 0 (result ! y))"
    by (auto simp: in_set_enumerate_eq)
  then show "(v, x, y) \<in> set (cells result)"
    by (force simp: cells_def)
qed

lemma min_max_loc_is_argmax:
  assumes "min_max_loc result = Some (v, x, y)"
  shows "y < length result \<and> x < length (result ! y) \<and> result ! y ! x = v
       \<and> (\<forall>i j. i < length result \<and> j < length (result ! i) \<longrightarrow> result ! i ! j \<le> v)"
proof -
  from assms have b: "(v, x, y) \<in> set (cells result)"
    and m: "\<forall>c \<in> set (cells result). fst c \<le> v"
    using best_of_some [of "cells result" "(v, x, y)"] by (auto simp: min_max_loc_def)
  have "\<And>i j. i < length result \<Longrightarrow> j < length (result ! i) \<Longrightarrow> result ! i ! j \<le> v"
  proof -
    fix i j assume "i < length result" "j < length (result ! i)"
    then have "(result ! i ! j, j, i) \<in> set (cells result)" by (simp add: in_cells)
    with m show "result ! i ! j \<le> v" by fastforce
  qed
  with b show ?thesis by (auto simp: in_cells)
qed

lemma slice_index_nonneg: "0 \<le> i \<Longrightarrow> slice_index n i = min n (nat i)"
  by (auto simp: slice_index_def Let_def)

lemma zero_slice_nth:
  "j < length row \<Longrightarrow> zero_slice start stop row ! j =
     (if slice_index (length row) start \<le> j \<and> j < slice_index (length row) stop
      then 0 else row ! j)"
  by (simp add: zero_slice_def nth_enumerate_eq)

lemma length_zero_slice: "length (zero_slice start stop row) = length row"
  by (simp add: zero_slice_def)

lemma length_suppress: "length (suppress result x y w h) = length result"
  by (simp add: suppress_def)

lemma suppress_row:
  "i < length result \<Longrightarrow> suppress result x y w h ! i =
     (if slice_index (length result) (int y - int (h div 2)) \<le> i
         \<and> i < slice_index (length result) (int y + int (h div 2) + int h)
      then zero_slice (int x - int (w div 2)) (int x + int (w div 2) + int w) (result ! i)
      else result ! i)"
  by (simp add: suppress_def nth_enumerate_eq)

lemma length_suppress_row:
  "i < length result \<Longrightarrow> length (suppress result x y w h ! i) = length (result ! i)"
  by (simp add: suppress_row length_zero_slice)

lemma suppress_cell:
  assumes "h div 2 \<le> y" "w div 2 \<le> x" "i < length result" "j < length (result ! i)"
  shows "suppress result x y w h ! i ! j =
           (if y - h div 2 \<le> i \<and> i < y + h div 2 + h
               \<and> x - w div 2 \<le> j \<and> j < x + w div 2 + w
            then 0 else result ! i ! j)"
  using assms
  by (auto simp: suppress_row zero_slice_nth slice_index_nonneg nat_diff_distrib'
      nat_add_distrib)

text \<open>The map keeps its shape, so \<open>minMaxLoc\<close> raises on every iteration or on none.\<close>

lemma cells_empty_iff:
  "cells result = [] \<longleftrightarrow> (\<forall>i < length result. result ! i = [])"
proof
  assume e: "cells result = []"
  show "\<forall>i < length result. result ! i = []"
  proof (intro allI impI)
    fix i assume i: "i < length result"
    show "result ! i = []"
    proof (rule ccontr)
      assume "result ! i \<noteq> []"
      then have "(result ! i ! 0, 0, i) \<in> set (cells result)"
        using i by (simp add: in_cells)
      with e show False by simp
    qed
  qed
next
  assume a: "\<forall>i < length result. result ! i = []"
  show "cells result = []"
  proof (rule ccontr)
    assume "cells result \<noteq> []"
    then obtain v x y where "(v, x, y) \<in> set (cells result)"
      by (cases "cells result") auto
    then have "y < length result" and "x < length (result ! y)"
      by (simp_all add: in_cells)
    with a show False by simp
  qed
qed

lemma cells_suppress_empty:
  "cells (suppress result x y w h) = [] \<longleftrightarrow> cells result = []"
proof -
  have "\<And>i. i < length result \<Longrightarrow>
          (suppress result x y w h ! i = []) = (result ! i = [])"
    using length_suppress_row [of _ result x y w h] by (metis length_0_conv)
  then show ?thesis
    by (simp add: cells_empty_iff length_suppress)
qed

lemma find_all_loop_total:
  "cells result \<noteq> [] \<Longrightarrow> \<exists>found. find_all_loop k thr w h result = Some found"
proof (induction k arbitrary: result)
  case 0
  then show ?case by simp
next
  case (Suc k)
  from Suc.prems obtain v x y where loc: "min_max_loc result = Some (v, x, y)"
    by (cases "min_max_loc result") (auto simp: min_max_loc_def best_of_none)
  have "cells (suppress result x y w h) \<noteq> []"
    using Suc.prems by (simp add: cells_suppress_empty)
  then obtain found where "find_all_loop k thr w h (suppress result x y w h) = Some found"
    using Suc.IH by blast
  with loc show ?case by simp
qed

lemma find_all_loop_length:
  "find_all_loop k thr w h result = Some found \<Longrightarrow> length found \<le> k"
  by (induction k arbitrary: result found) (auto split: option.splits if_splits)

lemma find_all_loop_scores:
  "find_all_loop k thr w h result = Some found \<Longrightarrow> (x, y, w', h', v) \<in> set found
     \<Longrightarrow> thr \<le> v \<and> w' = w \<and> h' = h"
proof (induction k arbitrary: result found)
  case 0
  then show ?case by simp
next
  case (Suc k)
  then show ?case
    by (auto split: option.splits if_splits)
qed

lemma find_all_templates_length:
  "length (find_all_templates result (Some (w, h)) thr limit) \<le> nat limit"
  using find_all_loop_length [of "nat limit" thr w h result]
  by (auto simp: find_all_templates_def split: option.splits)

lemma find_all_templates_scores:
  assumes "(x, y, w', h', v) \<in> set (find_all_templates result (Some (w, h)) thr limit)"
  shows "thr \<le> v \<and> w' = w \<and> h' = h"
proof (cases "find_all_loop (nat limit) thr w h result")
  case None
  with assms show ?thesis by (simp add: find_all_templates_def)
next
  case (Some found)
  with assms have "(x, y, w', h', v) \<in> set found"
    by (simp add: find_all_templates_def)
  with Some show ?thesis by (rule find_all_loop_scores)
qed

lemma find_all_templates_step:
  assumes loc: "min_max_loc result = Some (v, x, y)" and pos: "0 < limit"
  shows "find_all_templates result (Some (w, h)) thr limit =
           (if v < thr then []
            else (x, y, w, h, v)
                 # find_all_templates (suppress result x y w h) (Some (w, h)) thr (limit - 1))"
proof -
  from pos have n: "nat limit = Suc (nat (limit - 1))" by simp
  from loc have "cells result \<noteq> []"
    by (auto simp: min_max_loc_def)
  then have "cells (suppress result x y w h) \<noteq> []"
    by (simp add: cells_suppress_empty)
  then obtain found where
    "find_all_loop (nat (limit - 1)) thr w h (suppress result x y w h) = Some found"
    using find_all_loop_total by blast
  with loc show ?thesis
    by (simp add: find_all_templates_def n)
qed

text \<open>
  C5, as stated, fails. On the demo map the best match of the 2 by 2 template is at
  \<open>(1, 1)\<close>. The cell \<open>(3, 3)\<close>, with score 800, lies outside the rows and columns
  \<open>1 - 2/2 .. 1 + 2/2\<close> of a region centred on that match, yet it is zeroed, and the
  search reports the matches at \<open>(1, 1)\<close> and \<open>(4, 4)\<close> only.
\<close>

theorem suppression_wider_than_template:
  "min_max_loc demo_map = Some (900, 1, 1)
   \<and> demo_map ! 3 ! 3 = 800
   \<and> \<not> (3 \<le> (1::nat) + 2 div 2)
   \<and> suppress demo_map 1 1 2 2 ! 3 ! 3 = 0
   \<and> find_all_templates demo_map (Some (2, 2)) 500 10
       = [(1, 1, 2, 2, 900), (4, 4, 2, 2, 700)]"
  by (simp add: find_all_templates_def demo_map_def min_max_loc_def cells_def suppress_def
      zero_slice_def slice_index_def enumerate_eq_zip upt_rec Let_def eval_nat_numeral)

text \<open>
  C5, amended. \<open>find_all_templates\<close> is an iterative best-then-suppress search: it
  returns at most \<open>limit\<close> matches, each with the template's size and a score of at least
  the threshold; while matches may still be recorded it takes the position \<open>(x, y)\<close> of
  the largest score of the current map, stops if that score is below the threshold, and
  otherwise records the match and goes on with the suppressed map. For a match at least
  half a template away from the top and the left edge (\<open>h div 2 \<le> y\<close>,
  \<open>w div 2 \<le> x\<close>) the suppression zeroes exactly the cells in rows
  \<open>y - h div 2 .. y + h div 2 + h - 1\<close> and columns \<open>x - w div 2 .. x + w div 2 + w - 1\<close>
  that the map has, a region that begins half a template before the match and is
  \<open>w + 2 (w div 2)\<close> wide and \<open>h + 2 (h div 2)\<close> high; every other cell keeps its score.
\<close>

theorem find_all_templates_suppression:
  "length (find_all_templates result (Some (w, h)) thr limit) \<le> nat limit
   \<and> (\<forall>m \<in> set (find_all_templates result (Some (w, h)) thr limit).
         (case m of (x, y, w', h', v) \<Rightarrow> thr \<le> v \<and> w' = w \<and> h' = h))
   \<and> (\<forall>v x y. min_max_loc result = Some (v, x, y) \<and> 0 < limit \<longrightarrow>
         y < length result \<and> x < length (result ! y) \<and> result ! y ! x = v
         \<and> (\<forall>i j. i < length result \<and> j < length (result ! i) \<longrightarrow> result ! i ! j \<le> v)
         \<and> find_all_templates result (Some (w, h)) thr limit =
             (if v < thr then []
              else (x, y, w, h, v)
                   # find_all_templates (suppress result x y w h) (Some (w, h)) thr (limit - 1)))
   \<and> (\<forall>x y i j. h div 2 \<le> y \<and> w div 2 \<le> x \<and> i < length result \<and> j < length (result ! i) \<longrightarrow>
         suppress result x y w h ! i ! j =
           (if y - h div 2 \<le> i \<and> i < y + h div 2 + h
               \<and> x - w div 2 \<le> j \<and> j < x + w div 2 + w
            then 0 else result ! i ! j))"
proof (intro conjI)
  show "length (find_all_templates result (Some (w, h)) thr limit) \<le> nat limit"
    by (rule find_all_templates_length)
  show "\<forall>m \<in> set (find_all_templates result (Some (w, h)) thr limit).
          (case m of (x, y, w', h', v) \<Rightarrow> thr \<le> v \<and> w' = w \<and> h' = h)"
    using find_all_templates_scores [of _ _ _ _ _ result w h thr limit] by auto
  show "\<forall>v x y. min_max_loc result = Some (v, x, y) \<and> 0 < limit \<longrightarrow>
         y < length result \<and> x < length (result ! y) \<and> result ! y ! x = v
         \<and> (\<forall>i j. i < length result \<and> j < length (result ! i) \<longrightarrow> result ! i ! j \<le> v)
         \<and> find_all_templates result (Some (w, h)) thr limit =
             (if v < thr then []
              else (x, y, w, h, v)
                   # find_all_templates (suppress result x y w h) (Some (w, h)) thr (limit - 1))"
    using min_max_loc_is_argmax [of result] find_all_templates_step [of result _ _ _ limit w h thr]
    by blast
  show "\<forall>x y i j. h div 2 \<le> y \<and> w div 2 \<le> x \<and> i < length result \<and> j < length (result ! i) \<longrightarrow>
         suppress result x y w h ! i ! j =
           (if y - h div 2 \<le> i \<and> i < y + h div 2 + h
               \<and> x - w div 2 \<le> j \<and> j < x + w div 2 + w
            then 0 else result ! i ! j)"
    using suppress_cell [of h _ w _ _ result] by blast
qed

lemma demo_map_best: "min_max_loc demo_map = Some (900, 1, 1)"
  by (simp add: demo_map_def min_max_loc_def cells_def enumerate_eq_zip upt_rec)

theorem find_all_templates_suppression_witness:
  "min_max_loc demo_map = Some (900, 1, 1) \<and> (0::int) < 10
   \<and> (2::nat) div 2 \<le> 1 \<and> (2::nat) < length demo_map \<and> (3::nat) < length (demo_map ! 2)
   \<and> demo_map ! 1 ! 1 = 900
   \<and> length (find_all_templates demo_map (Some (2, 2)) 500 10) \<le> 10
   \<and> find_all_templates demo_map (Some (2, 2)) 500 10
       = (1, 1, 2, 2, 900) # find_all_templates (suppress demo_map 1 1 2 2) (Some (2, 2)) 500 9
   \<and> suppress demo_map 1 1 2 2 ! 2 ! 3 = 0
   \<and> suppress demo_map 1 1 2 2 ! 4 ! 4 = 700"
proof -
  note t = find_all_templates_suppression [of demo_map 2 2 500 10]
  have pos: "(0::int) < 10" and half: "(2::nat) div 2 \<le> 1"
    by simp_all
  have shape: "(2::nat) < length demo_map" "(3::nat) < length (demo_map ! 2)"
    "(4::nat) < length demo_map" "(4::nat) < length (demo_map ! 4)"
    by (simp_all add: demo_map_def)
  have len: "length (find_all_templates demo_map (Some (2, 2)) 500 10) \<le> 10"
    using t by simp
  have step: "demo_map ! 1 ! 1 = 900
     \<and> find_all_templates demo_map (Some (2, 2)) 500 10
       = (1, 1, 2, 2, 900) # find_all_templates (suppress demo_map 1 1 2 2) (Some (2, 2)) 500 9"
    using t demo_map_best by auto
  have c1: "suppress demo_map 1 1 2 2 ! 2 ! 3 = 0"
    using t shape by simp
  have "suppress demo_map 1 1 2 2 ! 4 ! 4 = demo_map ! 4 ! 4"
    using t shape by simp
  moreover have "demo_map ! 4 ! 4 = 700" by (simp add: demo_map_def)
  ultimately have c2: "suppress demo_map 1 1 2 2 ! 4 ! 4 = 700" by simp
  from demo_map_best pos half shape(1,2) len step c1 c2 show ?thesis by blast
qed

section \<open>Device manager: connecting\<close>

text \<open>
  What \<open>connect_device\<close> does to the record of a roster device: the attempt is stamped
  and counted first; success makes the device connected with the fetched information,
  failure leaves it disconnected. In both cases the counter stays incremented.
\<close>

lemma connect_device_success:
  assumes known: "devs device_id = Some d"
  shows "connect_device devs device_id now (Returns True) (Returns device_info) =
           (Returns True,
            devs(device_id \<mapsto> d\<lparr>last_connection_attempt := now,
                                  connection_attempts := connection_attempts d + 1,
                                  connected := True, status := StatusConnected,
                                  info := device_info\<rparr>))"
  using known by (simp add: connect_device_def update_dev_def connect_failed_def domIff)

lemma connect_device_failure:
  assumes known: "devs device_id = Some d"
  shows "connect_device devs device_id now (Returns False) adb_info =
           (Returns False,
            devs(device_id \<mapsto> d\<lparr>last_connection_attempt := now,
                                  connection_attempts := connection_attempts d + 1,
                                  connected := False, status := StatusConnectError\<rparr>))"
  using known by (simp add: connect_device_def update_dev_def connect_failed_def domIff)

text \<open>
  C6 at a concrete input: the freshly loaded device \<open>127.0.0.1:5555\<close> (counter 0) is
  connected at clock reading 100, the bridge reports success and the device information.
  The call returns \<open>True\<close>, the record is connected with the fetched information and the
  attempt timestamp, and the attempt counter is 1: \<open>connect_device\<close> increments it and
  never resets it (only the status sweep writes 0).
\<close>

theorem connect_device_success_counter:
  "connect_device roster1 ''127.0.0.1:5555'' 100 (Returns True)
       (Returns [(''model'', ''SM-G973'')])
     = (Returns True,
        [''127.0.0.1:5555'' \<mapsto>
           (new_device ''127.0.0.1:5555'' (DefaultName ''127.0.0.1:5555'') ''127.0.0.1'' ''5555'')
             \<lparr> connected := True, status := StatusConnected,
               last_connection_attempt := 100, connection_attempts := 1,
               info := [(''model'', ''SM-G973'')] \<rparr>])"
  by (simp add: connect_device_def roster1_eq update_dev_def new_device_def)

section \<open>Script store: reloading\<close>

lemma cached_loader_eq:
  "cached_loader =
     \<lparr> configs_dir = ''configs'',
       loaded_configs =
         [''daily'' \<mapsto> \<lparr> cfg_name = ''daily'', cfg_path = ''configs/daily.py'',
                          cfg_module = script_of empty_steps, config = empty_steps \<rparr>,
          ''weekly'' \<mapsto> \<lparr> cfg_name = ''weekly'', cfg_path = ''configs/weekly.py'',
                           cfg_module = script_of empty_steps, config = empty_steps \<rparr>] \<rparr>"
  by (simp add: cached_loader_def load_config_def two_scripts_def empty_loader_def
      config_path_def path_join_def startswith_def script_of_def Let_def)

text \<open>
  C7, as stated, fails: \<open>daily\<close> is cached, its file has been removed, and the failed
  reload leaves the store without the entry.
\<close>

theorem failed_reload_loses_entry:
  "get_loaded_config cached_loader ''daily'' \<noteq> None
   \<and> \<not> fst (reload_config Map.empty cached_loader ''daily'')
   \<and> get_loaded_config (snd (reload_config Map.empty cached_loader ''daily'')) ''daily'' = None"
  by (simp add: cached_loader_eq reload_config_def load_config_def get_loaded_config_def
      config_path_def path_join_def startswith_def Let_def)

text \<open>
  C7, amended. \<open>reload_config\<close> deletes the cached entry and then loads the script. If the
  reload fails (the file is missing or does not load), the name has no cached entry
  afterwards, so \<open>get_loaded_config\<close> returns \<open>None\<close> for it; the entries of all other
  names are as before.
\<close>

theorem reload_failure_drops_entry:
  assumes "\<not> fst (reload_config files cl config_name)"
  shows "get_loaded_config (snd (reload_config files cl config_name)) config_name = None
       \<and> (\<forall>other. other \<noteq> config_name \<longrightarrow>
             get_loaded_config (snd (reload_config files cl config_name)) other
               = get_loaded_config cl other)"
  using assms
  by (auto simp: reload_config_def load_config_def get_loaded_config_def Let_def
      split: option.splits script_file.splits attr.splits pyval.splits prod.splits)

theorem reload_failure_drops_entry_witness:
  "\<not> fst (reload_config [''configs/daily.py'' \<mapsto> Broken] cached_loader ''daily'')
   \<and> get_loaded_config
        (snd (reload_config [''configs/daily.py'' \<mapsto> Broken] cached_loader ''daily''))
        ''daily'' = None
   \<and> ''weekly'' \<noteq> ''daily''
   \<and> get_loaded_config
        (snd (reload_config [''configs/daily.py'' \<mapsto> Broken] cached_loader ''daily''))
        ''weekly'' = get_loaded_config cached_loader ''weekly''
   \<and> get_loaded_config cached_loader ''weekly'' \<noteq> None"
proof -
  have failed: "\<not> fst (reload_config [''configs/daily.py'' \<mapsto> Broken] cached_loader ''daily'')"
    by (simp add: cached_loader_eq reload_config_def load_config_def config_path_def
        path_join_def startswith_def Let_def)
  have kept: "get_loaded_config cached_loader ''weekly'' \<noteq> None"
    by (simp add: cached_loader_eq get_loaded_config_def)
  show ?thesis
    using failed kept reload_failure_drops_entry [OF failed] by simp
qed

section \<open>Device manager: the action tag\<close>

text \<open>
  A tagging operation on a connected roster device clears the tag when the bridge call
  returns or raises, and keeps it when the call is cancelled.
\<close>

lemma tagged_call_clears_tag:
  assumes "devs device_id = Some d" and "connected d" and "adb_result \<noteq> Cancelled"
  shows "map_option current_action
           (snd (tagged_call devs device_id tag adb_result failure) device_id) = Some None"
  using assms
  by (cases adb_result)
     (simp_all add: tagged_call_def update_device_action_def update_dev_def domIff)

lemma tagged_call_cancelled_keeps_tag:
  assumes "devs device_id = Some d" and "connected d"
  shows "tagged_call devs device_id tag Cancelled failure
           = (Cancelled, devs(device_id \<mapsto> d\<lparr>current_action := Some tag\<rparr>))"
  using assms
  by (simp add: tagged_call_def update_device_action_def update_dev_def domIff)

text \<open>
  C8 at a concrete input: a tap on the connected device. When the awaited bridge call is
  cancelled, \<open>input_tap\<close> is left with the tag still set; when the call returns or raises,
  the tag is cleared.
\<close>

theorem input_tap_cancelled_tag:
  "fst (input_tap connected1 ''127.0.0.1:5555'' 10 20 None Cancelled) = Cancelled
   \<and> map_option current_action
        (snd (input_tap connected1 ''127.0.0.1:5555'' 10 20 None Cancelled) ''127.0.0.1:5555'')
       = Some (Some (TagTap 10 20))
   \<and> map_option current_action
        (snd (input_tap connected1 ''127.0.0.1:5555'' 10 20 None (Returns False)) ''127.0.0.1:5555'')
       = Some None
   \<and> map_option current_action
        (snd (input_tap connected1 ''127.0.0.1:5555'' 10 20 None Raises) ''127.0.0.1:5555'')
       = Some None"
  by (simp add: input_tap_def tagged_call_def connected1_eq update_dev_def
      update_device_action_def label_or_def new_device_def)

section \<open>Script store: validation\<close>

lemma check_config_iff:
  "check_config c =
     ((\<exists>a. map_of c ''actions'' = Some (PyList a))
      \<and> (\<exists>xs. map_of c ''steps'' = Some (PyList xs))
      \<and> (map_of c ''enabled_steps'' = None
           \<or> (\<exists>e. map_of c ''enabled_steps'' = Some (PyDict e))))"
proof -
  have l: "\<And>v. is_list v = (\<exists>a. v = PyList a)" by (case_tac v) auto
  have d: "\<And>v. is_dict v = (\<exists>a. v = PyDict a)" by (case_tac v) auto
  show ?thesis
    by (cases "map_of c ''actions''"; cases "map_of c ''steps''";
        cases "map_of c ''enabled_steps''")
       (auto simp: check_config_def l d)
qed

lemma validate_via_load:
  "fst (validate_config files cl n) =
     (case fst (load_config files cl n) of
        None \<Rightarrow> False
      | Some e \<Rightarrow> check_config (config e))"
  by (auto simp: validate_config_def load_config_def is_config_loaded_def Let_def
      split: option.splits script_file.splits attr.splits pyval.splits)

text \<open>
  C9, as stated, fails in both directions: a script with an empty step list is valid, and
  a script with one step and no \<open>enabled\<close> mask, but without the \<open>actions\<close> field, is
  invalid.
\<close>

theorem validation_counterexample:
  "fst (validate_config
          (files_with (script_of [(''actions'', PyList []), (''steps'', PyList [])]))
          empty_loader ''daily'')
   \<and> \<not> fst (validate_config
          (files_with (script_of
             [(''steps'', PyList [PyDict [(''name'', PyStr ''open''), (''action'', PyStr ''tap'')]])]))
          empty_loader ''daily'')"
  by (simp add: validate_config_def load_config_def is_config_loaded_def empty_loader_def
      files_with_def script_of_def config_path_def path_join_def startswith_def
      check_config_def Let_def)

text \<open>
  C9, amended. \<open>validate_config\<close> returns valid exactly when the script is cached or loads
  from its file and its \<open>CONFIG\<close> has both fields \<open>actions\<close> and \<open>steps\<close>, each of
  them a list, and \<open>enabled_steps\<close>, when present, is a dictionary. The step list may be
  empty, and what the entries of \<open>enabled_steps\<close> are is not checked.
\<close>

theorem validate_config_iff:
  "fst (validate_config files cl config_name) =
     (case fst (load_config files cl config_name) of
        None \<Rightarrow> False
      | Some e \<Rightarrow>
          (\<exists>a. map_of (config e) ''actions'' = Some (PyList a))
          \<and> (\<exists>xs. map_of (config e) ''steps'' = Some (PyList xs))
          \<and> (map_of (config e) ''enabled_steps'' = None
               \<or> (\<exists>m. map_of (config e) ''enabled_steps'' = Some (PyDict m))))"
  by (simp add: validate_via_load check_config_iff split: option.splits)

section \<open>Device manager: unknown devices\<close>

text \<open>
  C10. A device id that is not in the loaded roster is rejected by every device-targeted
  operation: \<open>connect_device\<close>, \<open>disconnect_device\<close>, \<open>input_tap\<close>, \<open>input_text\<close>
  and \<open>restart_app\<close> return \<open>False\<close>, \<open>take_screenshot\<close> returns \<open>None\<close> and
  \<open>execute_adb_command\<close> a failed triple. Each of them returns (it neither raises nor is
  cancelled, whatever the bridge would have answered) and the roster is left exactly as it
  was.
\<close>

theorem unknown_device_rejected:
  assumes "device_id \<notin> dom devs"
  shows "connect_device devs device_id now adb_connect adb_info = (Returns False, devs)
       \<and> disconnect_device devs device_id adb_disconnect = (Returns False, devs)
       \<and> input_tap devs device_id x y label adb_tap = (Returns False, devs)
       \<and> input_text devs device_id txt label adb_text = (Returns False, devs)
       \<and> restart_app devs device_id package label adb_restart = (Returns False, devs)
       \<and> take_screenshot devs device_id adb_shot = (Returns None, devs)
       \<and> execute_adb_command devs device_id command label adb_exec
             = (Returns (False, [], ErrNotInRoster), devs)"
  using assms
  by (simp add: connect_device_def disconnect_device_def input_tap_def input_text_def
      restart_app_def take_screenshot_def execute_adb_command_def tagged_call_def)

theorem unknown_device_rejected_witness:
  "''emulator-5554'' \<notin> dom roster1
   \<and> connect_device roster1 ''emulator-5554'' 100 (Returns True) (Returns [])
       = (Returns False, roster1)
   \<and> disconnect_device roster1 ''emulator-5554'' (Returns True) = (Returns False, roster1)
   \<and> input_tap roster1 ''emulator-5554'' 10 20 None (Returns True) = (Returns False, roster1)
   \<and> input_text roster1 ''emulator-5554'' ''abc'' None (Returns True)
       = (Returns False, roster1)
   \<and> restart_app roster1 ''emulator-5554'' ''com.app'' None (Returns True)
       = (Returns False, roster1)
   \<and> take_screenshot roster1 ''emulator-5554'' (Returns (Some ''s.png''))
       = (Returns None, roster1)
   \<and> execute_adb_command roster1 ''emulator-5554'' [''shell'', ''ls''] (Some ''list'')
         (Returns (True, ''ok'', ErrOutput [])) = (Returns (False, [], ErrNotInRoster), roster1)"
proof -
  have unknown: "''emulator-5554'' \<notin> dom roster1"
    by (simp add: roster1_eq)
  show ?thesis
    using unknown unknown_device_rejected [OF unknown] by simp
qed

end
